theory Spec2Isabelle
  imports Complex_Main
begin

section \<open>Values exchanged with the platform\<close>

text \<open>
  The function under study, \<open>assessRecaptchaToken\<close> of \<open>src/index.ts\<close>, talks to three
  services of the JavaScript platform: \<open>fetch\<close>, \<open>JSON.stringify\<close> and \<open>JSON.parse\<close>.
  What it builds, and what it hands back to its caller, are JavaScript values of the
  kind JSON describes. Numbers are idealised as reals: the only number the function
  itself produces is an HTTP status code or the literal 500.
\<close>

datatype json =
    JNull
  | JBool bool
  | JNumber real
  | JString string
  | JArray "json list"
  | JObject "(string \<times> json) list"

text \<open>
  Anything can be thrown in JavaScript. The \<open>catch\<close> clause of the function only asks
  whether the thrown value is an instance of \<open>Error\<close>, and reads its \<open>message\<close> if so.
\<close>

datatype thrown =
    Error (message: string)
  | NonError json

text \<open>The destructured parameter of the function (lines 78-90).\<close>

record options =
  token :: string
  siteKey :: string
  expectedAction :: string
  api_token :: string
  projectId :: string

text \<open>The second argument of \<open>fetch\<close> as the function writes it (lines 94-106).\<close>

record request_init =
  "method" :: string
  headers :: "(string \<times> string) list"
  body :: string

text \<open>
  The members of the \<open>Response\<close> object that the function reads: \<open>res.ok\<close>,
  \<open>res.status\<close>, \<open>res.statusText\<close> and the body, through \<open>res.text()\<close>. A
  \<open>Response\<close> is an object with a state of its own: its body is a stream that can be
  read once. \<open>stream\<close> is the identity of that stream, \<open>None\<close> for a response with a
  null body. \<open>read_outcome\<close> is what the one read of the stream yields: a failure
  with a thrown value, or the content as a string.
\<close>

record response =
  ok :: bool
  status :: int
  statusText :: string
  stream :: "nat option"
  read_outcome :: "thrown + string"

text \<open>
  The platform. \<open>fetch\<close> is the transport: given the URL and the init object it
  either rejects or resolves with a response, and it may change the state \<open>'w\<close> of the
  outside world. \<open>JSON.stringify\<close> on an object of strings always returns a string;
  \<open>JSON.parse\<close> either throws or returns a value. \<open>body_unusable\<close> is the message
  of the \<open>TypeError\<close> with which \<open>res.text()\<close> rejects when the body has been read
  before; its wording differs from one runtime to the next.
\<close>

record 'w platform =
  fetch :: "string \<Rightarrow> request_init \<Rightarrow> 'w \<Rightarrow> (thrown + response) \<times> 'w"
  JSON_stringify :: "json \<Rightarrow> string"
  JSON_parse :: "string \<Rightarrow> thrown + json"
  body_unusable :: string

section \<open>Effects\<close>

text \<open>
  An invocation runs against the state of the world and of the \<open>Response\<close> objects
  that exist: \<open>bodyUsed\<close> holds the body streams that have been read. It leaves, in
  order, a record of every platform call that has an effect or reads the response: the
  outbound network call, the reading of the body, the parsing of the body.
\<close>

datatype call =
    Fetch string request_init
  | Text response
  | Parse string

record 'w state =
  world :: 'w
  bodyUsed :: "nat set"
  calls :: "call list"

fun outbound :: "call \<Rightarrow> bool" where
  "outbound (Fetch u i) = True"
| "outbound (Text r) = False"
| "outbound (Parse t) = False"

definition await_fetch ::
  "'w platform \<Rightarrow> string \<Rightarrow> request_init \<Rightarrow> 'w state \<Rightarrow> (thrown + response) \<times> 'w state" where
  "await_fetch P u i s =
     (case fetch P u i (world s) of
        (r, w') \<Rightarrow> (r, s\<lparr>world := w', calls := calls s @ [Fetch u i]\<rparr>))"

text \<open>
  A body is unusable when it is not null and has been read. \<open>text_outcome\<close> is what
  awaiting \<open>res.text()\<close> yields in a given state: the empty string for a null body, a
  rejection with a \<open>TypeError\<close>, which is an \<open>Error\<close>, for an unusable body, and the
  outcome of reading the stream otherwise. A body that is not null has been read
  afterwards, also when the read itself failed.
\<close>

definition unusable :: "response \<Rightarrow> 'w state \<Rightarrow> bool" where
  "unusable res s = (case stream res of None \<Rightarrow> False | Some b \<Rightarrow> b \<in> bodyUsed s)"

definition text_outcome :: "'w platform \<Rightarrow> response \<Rightarrow> 'w state \<Rightarrow> thrown + string" where
  "text_outcome P res s =
     (case stream res of
        None \<Rightarrow> Inr []
      | Some b \<Rightarrow>
          if b \<in> bodyUsed s then Inl (Error (body_unusable P)) else read_outcome res)"

definition await_text ::
  "'w platform \<Rightarrow> response \<Rightarrow> 'w state \<Rightarrow> (thrown + string) \<times> 'w state" where
  "await_text P res s =
     (text_outcome P res s,
      s\<lparr>bodyUsed := (case stream res of None \<Rightarrow> bodyUsed s
                                       | Some b \<Rightarrow> insert b (bodyUsed s)),
        calls := calls s @ [Text res]\<rparr>)"

definition call_parse ::
  "'w platform \<Rightarrow> string \<Rightarrow> 'w state \<Rightarrow> (thrown + json) \<times> 'w state" where
  "call_parse P t s = (JSON_parse P t, s\<lparr>calls := calls s @ [Parse t]\<rparr>)"

section \<open>The function\<close>

text \<open>The template literal of line 93.\<close>

definition request_url :: "options \<Rightarrow> string" where
  "request_url opts =
     ''https://recaptchaenterprise.googleapis.com/v1/projects/'' @ projectId opts
       @ ''/assessments?key='' @ api_token opts"

text \<open>The init object of lines 94-106.\<close>

definition request_options :: "'w platform \<Rightarrow> options \<Rightarrow> request_init" where
  "request_options P opts =
     \<lparr>method = ''POST'',
      headers = [(''Content-Type'', ''application/json'')],
      body = JSON_stringify P
        (JObject [(''event'',
           JObject [(''token'', JString (token opts)),
                    (''siteKey'', JString (siteKey opts)),
                    (''expectedAction'', JString (expectedAction opts))])])\<rparr>"

text \<open>
  The body of the outer \<open>try\<close> (lines 92-137). Its outcome is \<open>Inl err\<close> when a
  statement throws \<open>err\<close>, and \<open>Inr v\<close> when a \<open>return\<close> statement yields \<open>v\<close>. The inner
  \<open>try\<close> around \<open>JSON.parse\<close> (lines 128-137) is the last \<open>case\<close>.
\<close>

definition try_block ::
  "'w platform \<Rightarrow> options \<Rightarrow> 'w state \<Rightarrow> (thrown + json) \<times> 'w state" where
  "try_block P opts s =
     (case await_fetch P (request_url opts) (request_options P opts) s of
        (Inl err, s1) \<Rightarrow> (Inl err, s1)
      | (Inr res, s1) \<Rightarrow>
          if \<not> ok res then
            (Inr (JObject [(''error'',
               JObject [(''code'', JNumber (of_int (status res))),
                        (''message'', JString (''HTTP error: '' @ statusText res))])]), s1)
          else
            (case await_text P res s1 of
               (Inl err, s2) \<Rightarrow> (Inl err, s2)
             | (Inr txt, s2) \<Rightarrow>
                 if txt = [] then
                   (Inr (JObject [(''error'',
                      JObject [(''code'', JNumber 500),
                               (''message'', JString ''Empty response from reCAPTCHA API'')])]), s2)
                 else
                   (case call_parse P txt s2 of
                      (Inr v, s3) \<Rightarrow> (Inr v, s3)
                    | (Inl err, s3) \<Rightarrow>
                        (Inr (JObject [(''error'',
                           JObject [(''code'', JNumber 500),
                                    (''message'',
                                     JString ''Invalid JSON response from reCAPTCHA API'')])]),
                         s3))))"

text \<open>
  The whole function (lines 78-149): the outer \<open>try\<close> with its \<open>catch\<close> clause
  (lines 138-148). The outcome is that of the returned promise: \<open>Inr v\<close> when it
  fulfils with \<open>v\<close>, \<open>Inl err\<close> when it rejects.
\<close>

definition assessRecaptchaToken ::
  "'w platform \<Rightarrow> options \<Rightarrow> 'w state \<Rightarrow> (thrown + json) \<times> 'w state" where
  "assessRecaptchaToken P opts s =
     (case try_block P opts s of
        (Inr v, s') \<Rightarrow> (Inr v, s')
      | (Inl err, s') \<Rightarrow>
          (Inr (JObject [(''error'',
             JObject [(''code'', JNumber 500),
                      (''message'',
                       JString (case err of
                                  Error m \<Rightarrow> m
                                | NonError x \<Rightarrow> ''Failed to assess recaptcha token''))])]),
           s'))"

section \<open>Vocabulary of the specification\<close>

text \<open>
  The error shape of the result type (lines 44-49): an object whose only member is
  \<open>error\<close>, holding a numeric \<open>code\<close> and a string \<open>message\<close>.
\<close>

definition error_shape :: "int \<Rightarrow> string \<Rightarrow> json" where
  "error_shape c m =
     JObject [(''error'', JObject [(''code'', JNumber (of_int c)), (''message'', JString m)])]"

text \<open>
  The Fetch standard computes \<open>ok\<close> from the status: it is true exactly for a status
  from 200 to 299. The function reads \<open>res.ok\<close>; a statement about a particular
  status code is about responses that obey the standard.
\<close>

definition standard_response :: "response \<Rightarrow> bool" where
  "standard_response r = (ok r = (200 \<le> status r \<and> status r \<le> 299))"

text \<open>The outbound network calls made between two states of an execution.\<close>

definition issued :: "'w state \<Rightarrow> 'w state \<Rightarrow> call list" where
  "issued s s' = filter outbound (drop (length (calls s)) (calls s'))"

text \<open>The request bodies put on the wire by a sequence of calls.\<close>

fun bodies :: "call list \<Rightarrow> string list" where
  "bodies [] = []"
| "bodies (Fetch u i # cs) = body i # bodies cs"
| "bodies (Text r # cs) = bodies cs"
| "bodies (Parse t # cs) = bodies cs"

text \<open>
  The content of the body of a response, apart from the identity of its stream:
  \<open>None\<close> for a null body.
\<close>

definition body_content :: "response \<Rightarrow> (thrown + string) option" where
  "body_content r = map_option (\<lambda>b. read_outcome r) (stream r)"

text \<open>
  Two outcomes of the transport are the same when they are the same rejection, or
  responses with the same status line and the same body content. They need not be
  the same object: a transport that builds a new \<open>Response\<close> for every call and one
  that hands out a single \<open>Response\<close> again and again both give the same outcome each
  time.
\<close>

fun same_outcome :: "thrown + response \<Rightarrow> thrown + response \<Rightarrow> bool" where
  "same_outcome (Inl e) (Inl e') = (e = e')"
| "same_outcome (Inr r) (Inr r') =
     (ok r = ok r' \<and> status r = status r' \<and> statusText r = statusText r' \<and>
      body_content r = body_content r')"
| "same_outcome (Inl e) (Inr r') = False"
| "same_outcome (Inr r) (Inl e') = False"

text \<open>
  A deterministic transport answers the same request with the same outcome, whatever
  the state of the world.
\<close>

definition deterministic_transport :: "'w platform \<Rightarrow> bool" where
  "deterministic_transport P =
     (\<forall>u i w w'. same_outcome (fst (fetch P u i w)) (fst (fetch P u i w')))"

text \<open>
  The response that the transport hands to an invocation started in state \<open>s\<close>, if it
  hands out one, has a body that can still be read.
\<close>

definition receives_usable_body :: "'w platform \<Rightarrow> options \<Rightarrow> 'w state \<Rightarrow> bool" where
  "receives_usable_body P opts s =
     (case fst (fetch P (request_url opts) (request_options P opts) (world s)) of
        Inl err \<Rightarrow> True
      | Inr res \<Rightarrow> \<not> unusable res s)"

section \<open>Test platforms\<close>

text \<open>
  A platform with an injected transport outcome, for running the function on concrete
  inputs. Its world is a counter of the requests it has received. Its serialiser
  renders strings and objects, which is all the function ever serialises, and writes
  \<open>null\<close> for any other value; its parser knows the response body of the
  specification's scenario and rejects every other text.
\<close>

fun quote_char :: "char \<Rightarrow> string" where
  "quote_char c =
     (if c = CHR 0x22 then [CHR 0x5C, CHR 0x22]
      else if c = CHR 0x5C then [CHR 0x5C, CHR 0x5C]
      else [c])"

definition quote :: "string \<Rightarrow> string" where
  "quote s = [CHR 0x22] @ concat (map quote_char s) @ [CHR 0x22]"

fun join :: "string list \<Rightarrow> string" where
  "join [] = []"
| "join [x] = x"
| "join (x # y # zs) = x @ '','' @ join (y # zs)"

fun render :: "json \<Rightarrow> string" where
  "render (JString s) = quote s"
| "render (JObject ms) =
     ''{'' @ join (map (\<lambda>kv. quote (fst kv) @ '':'' @ render (snd kv)) ms) @ ''}''"
| "render v = ''null''"

definition scenario_body :: string where
  \<open>scenario_body =
     ''{"tokenProperties":{"valid":true,"action":"login"},"riskAnalysis":{"score":0.9}}''\<close>

definition scenario_json :: json where
  "scenario_json =
     JObject [(''tokenProperties'',
                 JObject [(''valid'', JBool True), (''action'', JString ''login'')]),
              (''riskAnalysis'', JObject [(''score'', JNumber 0.9)])]"

definition table_parse :: "string \<Rightarrow> thrown + json" where
  "table_parse t =
     (if t = scenario_body then Inr scenario_json else Inl (Error ''Unexpected token''))"

text \<open>
  \<open>mock_platform\<close> hands the injected outcome to every call: when the outcome is a
  response, every call gets that one \<open>Response\<close> object. \<open>fresh_platform\<close> builds a
  new \<open>Response\<close> for every call, with the status line and body content of the given
  one and a body stream of its own.
\<close>

definition mock_platform :: "(thrown + response) \<Rightarrow> nat platform" where
  "mock_platform outcome =
     \<lparr>fetch = (\<lambda>u i w. (outcome, Suc w)), JSON_stringify = render, JSON_parse = table_parse,
      body_unusable = ''Body is unusable: Body has already been read''\<rparr>"

definition fresh_platform :: "response \<Rightarrow> nat platform" where
  "fresh_platform r =
     \<lparr>fetch = (\<lambda>u i w. (Inr (r\<lparr>stream := Some w\<rparr>), Suc w)),
      JSON_stringify = render, JSON_parse = table_parse,
      body_unusable = ''Body is unusable: Body has already been read''\<rparr>"

text \<open>A \<open>Response\<close> object with body stream 0 and \<open>ok\<close> as the Fetch standard has it.\<close>

definition respond :: "int \<Rightarrow> string \<Rightarrow> thrown + string \<Rightarrow> response" where
  "respond code reason b =
     \<lparr>ok = (200 \<le> code \<and> code \<le> 299), status = code, statusText = reason,
      stream = Some 0, read_outcome = b\<rparr>"

definition scenario_options :: options where
  "scenario_options =
     \<lparr>token = ''tok1'', siteKey = ''site1'', expectedAction = ''login'',
      api_token = ''key1'', projectId = ''proj1''\<rparr>"

text \<open>The state before anything has happened: no request sent, no body read.\<close>

definition start :: "nat state" where
  "start = \<lparr>world = 0, bodyUsed = {}, calls = []\<rparr>"

section \<open>The paths through the function\<close>

lemma text_outcome_after_fetch:
  "text_outcome P res (s\<lparr>world := w, calls := cs\<rparr>) = text_outcome P res s"
  by (simp add: text_outcome_def split: option.split)

lemma text_outcome_same_content:
  assumes "body_content res = body_content res'"
    and "\<not> unusable res s" and "\<not> unusable res' s'"
  shows "text_outcome P res s = text_outcome P res' s'"
  using assms
  by (auto simp: body_content_def unusable_def text_outcome_def split: option.splits)

lemma assess_fetch_rejected:
  assumes "fetch P (request_url opts) (request_options P opts) (world s) = (Inl err, w')"
  shows "fst (assessRecaptchaToken P opts s) =
     Inr (error_shape 500 (case err of Error m \<Rightarrow> m
                                       | NonError x \<Rightarrow> ''Failed to assess recaptcha token''))"
  using assms
  by (simp add: assessRecaptchaToken_def try_block_def await_fetch_def error_shape_def)

lemma assess_not_ok:
  assumes "fetch P (request_url opts) (request_options P opts) (world s) = (Inr res, w')"
    and "\<not> ok res"
  shows "assessRecaptchaToken P opts s =
     (Inr (error_shape (status res) (''HTTP error: '' @ statusText res)),
      s\<lparr>world := w', calls := calls s @ [Fetch (request_url opts) (request_options P opts)]\<rparr>)"
  using assms
  by (simp add: assessRecaptchaToken_def try_block_def await_fetch_def error_shape_def)

lemma assess_text_rejected:
  assumes "fetch P (request_url opts) (request_options P opts) (world s) = (Inr res, w')"
    and "ok res" and "text_outcome P res s = Inl err"
  shows "fst (assessRecaptchaToken P opts s) =
     Inr (error_shape 500 (case err of Error m \<Rightarrow> m
                                       | NonError x \<Rightarrow> ''Failed to assess recaptcha token''))"
  using assms
  by (simp add: assessRecaptchaToken_def try_block_def await_fetch_def await_text_def
      text_outcome_after_fetch error_shape_def)

lemma assess_empty_body:
  assumes "fetch P (request_url opts) (request_options P opts) (world s) = (Inr res, w')"
    and "ok res" and "text_outcome P res s = Inr []"
  shows "fst (assessRecaptchaToken P opts s) =
     Inr (error_shape 500 ''Empty response from reCAPTCHA API'')"
  using assms
  by (simp add: assessRecaptchaToken_def try_block_def await_fetch_def await_text_def
      text_outcome_after_fetch error_shape_def)

lemma assess_parse_throws:
  assumes "fetch P (request_url opts) (request_options P opts) (world s) = (Inr res, w')"
    and "ok res" and "text_outcome P res s = Inr txt" and "txt \<noteq> []"
    and "JSON_parse P txt = Inl err"
  shows "fst (assessRecaptchaToken P opts s) =
     Inr (error_shape 500 ''Invalid JSON response from reCAPTCHA API'')"
  using assms
  by (simp add: assessRecaptchaToken_def try_block_def await_fetch_def await_text_def
      call_parse_def text_outcome_after_fetch error_shape_def)

lemma assess_parsed:
  assumes "fetch P (request_url opts) (request_options P opts) (world s) = (Inr res, w')"
    and "ok res" and "text_outcome P res s = Inr txt" and "txt \<noteq> []"
    and "JSON_parse P txt = Inr v"
  shows "fst (assessRecaptchaToken P opts s) = Inr v"
  using assms
  by (simp add: assessRecaptchaToken_def try_block_def await_fetch_def await_text_def
      call_parse_def text_outcome_after_fetch)

text \<open>What an invocation leaves behind when it has read the body of the response.\<close>

lemma assess_read_state:
  assumes "fetch P (request_url opts) (request_options P opts) (world s) = (Inr res, w')"
    and "ok res"
  shows "world (snd (assessRecaptchaToken P opts s)) = w' \<and>
         bodyUsed (snd (assessRecaptchaToken P opts s)) =
           (case stream res of None \<Rightarrow> bodyUsed s | Some b \<Rightarrow> insert b (bodyUsed s))"
  using assms
  by (simp add: assessRecaptchaToken_def try_block_def await_fetch_def await_text_def
      call_parse_def split: prod.splits sum.splits option.splits)

section \<open>What every invocation does\<close>

lemma assess_calls:
  "\<exists>rest. calls (snd (assessRecaptchaToken P opts s)) =
      calls s @ Fetch (request_url opts) (request_options P opts) # rest
      \<and> filter outbound rest = []"
  by (simp add: assessRecaptchaToken_def try_block_def await_fetch_def await_text_def
      call_parse_def split: prod.splits sum.splits)

lemma assess_world:
  "world (snd (assessRecaptchaToken P opts s)) =
     snd (fetch P (request_url opts) (request_options P opts) (world s))"
  by (simp add: assessRecaptchaToken_def try_block_def await_fetch_def await_text_def
      call_parse_def split: prod.splits sum.splits)

lemma assess_issued:
  "issued s (snd (assessRecaptchaToken P opts s)) =
     [Fetch (request_url opts) (request_options P opts)]"
proof -
  obtain rest where
    "calls (snd (assessRecaptchaToken P opts s)) =
       calls s @ Fetch (request_url opts) (request_options P opts) # rest"
    and "filter outbound rest = []"
    using assess_calls by blast
  then show ?thesis by (simp add: issued_def)
qed

text \<open>
  The result is a function of the outcome of the transport and of whether the body can
  be read: two runs that receive the same outcome, each with a usable body, return the
  same value.
\<close>

lemma assess_same_response:
  assumes "fetch P (request_url opts) (request_options P opts) (world s) = (Inr res, w)"
    and "fetch P (request_url opts) (request_options P opts) (world s') = (Inr res', w')"
    and "ok res = ok res'"
    and "status res = status res'"
    and "statusText res = statusText res'"
    and "text_outcome P res s = text_outcome P res' s'"
  shows "fst (assessRecaptchaToken P opts s) = fst (assessRecaptchaToken P opts s')"
  using assms
  by (simp add: assessRecaptchaToken_def try_block_def await_fetch_def await_text_def
      call_parse_def text_outcome_after_fetch split: sum.splits)

lemma assess_result_of_outcome:
  assumes "same_outcome
             (fst (fetch P (request_url opts) (request_options P opts) (world s)))
             (fst (fetch P (request_url opts) (request_options P opts) (world s')))"
    and "receives_usable_body P opts s"
    and "receives_usable_body P opts s'"
  shows "fst (assessRecaptchaToken P opts s) = fst (assessRecaptchaToken P opts s')"
proof (cases "fetch P (request_url opts) (request_options P opts) (world s)")
  case a: (Pair r w)
  show ?thesis
  proof (cases "fetch P (request_url opts) (request_options P opts) (world s')")
    case b: (Pair r' w')
    show ?thesis
    proof (cases r)
      case (Inl e)
      with assms(1) a b have "r' = Inl e" by (cases r') simp_all
      with a b Inl show ?thesis by (simp add: assess_fetch_rejected)
    next
      case (Inr res)
      with assms(1) a b obtain res' where r': "r' = Inr res'" by (cases r') simp_all
      from assms(1) a b Inr r' have same:
        "ok res = ok res'" "status res = status res'" "statusText res = statusText res'"
        "body_content res = body_content res'"
        by simp_all
      from assms(2) a Inr have u: "\<not> unusable res s"
        by (simp add: receives_usable_body_def)
      from assms(3) b r' have u': "\<not> unusable res' s'"
        by (simp add: receives_usable_body_def)
      from a Inr have fa:
        "fetch P (request_url opts) (request_options P opts) (world s) = (Inr res, w)"
        by simp
      from b r' have fb:
        "fetch P (request_url opts) (request_options P opts) (world s') = (Inr res', w')"
        by simp
      from same(4) u u' have "text_outcome P res s = text_outcome P res' s'"
        by (rule text_outcome_same_content)
      with fa fb same(1-3) show ?thesis by (rule assess_same_response)
    qed
  qed
qed

lemma mock_fetch:
  "fetch (mock_platform outcome) u i w = (outcome, Suc w)"
  by (simp add: mock_platform_def)

lemma mock_parse_scenario:
  "JSON_parse (mock_platform outcome) scenario_body = Inr scenario_json"
  by (simp add: mock_platform_def table_parse_def)

lemma mock_parse_not_json:
  "JSON_parse (mock_platform outcome) ''not-json{'' = Inl (Error ''Unexpected token'')"
  by (simp add: mock_platform_def table_parse_def scenario_body_def)

lemma respond_text_at_start:
  "text_outcome P (respond code reason b) start = b"
  by (simp add: text_outcome_def respond_def start_def)

section \<open>Failures never escape\<close>

text \<open>
  Claim C1. For every request and every outcome of the transport interaction, the
  promise returned by \<open>assessRecaptchaToken\<close> fulfils with a value and never rejects.
  That value is the error shape unless the transport answered with a success response
  whose body was read, was not empty and was parsed; in that one case it is the parsed
  body. So a rejected \<open>fetch\<close>, a non-success status, a rejected read of the
  body, an empty body and a body that does not parse are all surfaced as the error
  shape.
\<close>

theorem assessRecaptchaToken_never_rejects:
  "\<exists>v. fst (assessRecaptchaToken P opts s) = Inr v \<and>
     ((\<exists>code msg. v = error_shape code msg) \<or>
      (\<exists>res w' txt.
          fetch P (request_url opts) (request_options P opts) (world s) = (Inr res, w') \<and>
          ok res \<and> text_outcome P res s = Inr txt \<and> txt \<noteq> [] \<and>
          JSON_parse P txt = Inr v))"
proof (cases "fetch P (request_url opts) (request_options P opts) (world s)")
  case (Pair r w')
  show ?thesis
  proof (cases r)
    case (Inl err)
    with Pair show ?thesis
      using assess_fetch_rejected [of P opts s err w'] by auto
  next
    case (Inr res)
    with Pair have res:
      "fetch P (request_url opts) (request_options P opts) (world s) = (Inr res, w')"
      by simp
    show ?thesis
    proof (cases "ok res")
      case False
      then show ?thesis using assess_not_ok [OF res] by auto
    next
      case True
      note ok = this
      show ?thesis
      proof (cases "text_outcome P res s")
        case (Inl err)
        then show ?thesis using assess_text_rejected [OF res ok] by auto
      next
        case (Inr t)
        note body = this
        show ?thesis
        proof (cases "t = []")
          case True
          with body show ?thesis using assess_empty_body [OF res ok] by auto
        next
          case False
          note nonempty = this
          show ?thesis
          proof (cases "JSON_parse P t")
            case (Inl err)
            then show ?thesis
              using assess_parse_throws [OF res ok body nonempty] by auto
          next
            case (Inr v)
            then have "fst (assessRecaptchaToken P opts s) = Inr v"
              using assess_parsed [OF res ok body nonempty] by simp
            with res ok body nonempty Inr show ?thesis by blast
          qed
        qed
      qed
    qed
  qed
qed

text \<open>
  The theorem at a transport that throws: the result is a value, and it is the error
  shape, since no response was received.
\<close>

theorem assessRecaptchaToken_never_rejects_witness:
  "\<exists>v. fst (assessRecaptchaToken (mock_platform (Inl (Error ''connection reset'')))
            scenario_options start) = Inr v \<and>
       (\<exists>code msg. v = error_shape code msg)"
  using assessRecaptchaToken_never_rejects
    [of "mock_platform (Inl (Error ''connection reset''))" scenario_options start]
  by (auto simp: mock_fetch)

section \<open>The success path\<close>

text \<open>
  Claim C2. When the transport answers with HTTP 200, the body read from the response
  is not empty and \<open>JSON.parse\<close> returns a value for it, the value returned is exactly
  that parsed value: nothing is added, dropped, renamed or checked.
\<close>

theorem success_returns_parsed_body:
  assumes "fetch P (request_url opts) (request_options P opts) (world s) = (Inr res, w')"
    and "standard_response res"
    and "status res = 200"
    and "text_outcome P res s = Inr txt"
    and "txt \<noteq> []"
    and "JSON_parse P txt = Inr v"
  shows "fst (assessRecaptchaToken P opts s) = Inr v"
proof -
  from assms(2,3) have "ok res" by (simp add: standard_response_def)
  then show ?thesis
    using assess_parsed [OF assms(1) _ assms(4) assms(5) assms(6)] by simp
qed

text \<open>
  The scenario of the specification: status 200 and a body with \<open>tokenProperties\<close> and
  \<open>riskAnalysis\<close>. The result is the parsed body, which has no \<open>error\<close> member.
\<close>

theorem success_returns_parsed_body_witness:
  "status (respond 200 ''OK'' (Inr scenario_body)) = 200 \<and>
   fst (assessRecaptchaToken (mock_platform (Inr (respond 200 ''OK'' (Inr scenario_body))))
          scenario_options start) =
     Inr (JObject [(''tokenProperties'',
                     JObject [(''valid'', JBool True), (''action'', JString ''login'')]),
                   (''riskAnalysis'', JObject [(''score'', JNumber 0.9)])])"
proof -
  let ?res = "respond 200 ''OK'' (Inr scenario_body)"
  have a: "fetch (mock_platform (Inr ?res)) (request_url scenario_options)
             (request_options (mock_platform (Inr ?res)) scenario_options) (world start)
           = (Inr ?res, Suc (world start))"
    by (rule mock_fetch)
  have b: "standard_response ?res" by (simp add: respond_def standard_response_def)
  have c: "status ?res = 200" by (simp add: respond_def)
  have d: "text_outcome (mock_platform (Inr ?res)) ?res start = Inr scenario_body"
    by (rule respond_text_at_start)
  have e: "scenario_body \<noteq> []" by (simp add: scenario_body_def)
  have f: "JSON_parse (mock_platform (Inr ?res)) scenario_body = Inr scenario_json"
    by (rule mock_parse_scenario)
  show ?thesis
    using success_returns_parsed_body [OF a b c d e f] c
    by (simp add: scenario_json_def)
qed

section \<open>The failure paths\<close>

text \<open>
  Claim C3. When the transport answers with a non-success status (\<open>res.ok\<close> is false),
  the result is the error shape whose code is the status of the response and whose
  message is \<open>HTTP error: \<close> followed by the status text. The only platform call the
  invocation has made is the outbound request: the body is neither read nor parsed.
\<close>

theorem non_success_status_reported:
  assumes "fetch P (request_url opts) (request_options P opts) (world s) = (Inr res, w')"
    and "\<not> ok res"
  shows "fst (assessRecaptchaToken P opts s) =
           Inr (error_shape (status res) (''HTTP error: '' @ statusText res)) \<and>
         calls (snd (assessRecaptchaToken P opts s)) =
           calls s @ [Fetch (request_url opts) (request_options P opts)]"
  using assess_not_ok [OF assms] by simp

theorem non_success_status_reported_witness:
  "\<not> ok (respond 403 ''Forbidden'' (Inr scenario_body)) \<and>
   fst (assessRecaptchaToken
          (mock_platform (Inr (respond 403 ''Forbidden'' (Inr scenario_body))))
          scenario_options start) =
     Inr (error_shape 403 ''HTTP error: Forbidden'') \<and>
   length (calls (snd (assessRecaptchaToken
          (mock_platform (Inr (respond 403 ''Forbidden'' (Inr scenario_body))))
          scenario_options start))) = 1"
proof -
  let ?res = "respond 403 ''Forbidden'' (Inr scenario_body)"
  have a: "fetch (mock_platform (Inr ?res)) (request_url scenario_options)
             (request_options (mock_platform (Inr ?res)) scenario_options) (world start)
           = (Inr ?res, Suc (world start))"
    by (rule mock_fetch)
  have b: "\<not> ok ?res" by (simp add: respond_def)
  show ?thesis
    using non_success_status_reported [OF a b] b
    by (simp add: respond_def start_def)
qed

text \<open>
  Claim C4, as amended. When the transport throws, be it while \<open>fetch\<close> is awaited or
  while the body of a success response is read, the result is the error shape with code
  500. Its message is the message of the thrown value when that value is an \<open>Error\<close>,
  and the fixed text \<open>Failed to assess recaptcha token\<close> when it is not; so the
  message is empty exactly when an \<open>Error\<close> with an empty message was thrown.
\<close>

theorem transport_exception_reported:
  assumes "fetch P (request_url opts) (request_options P opts) (world s) = (Inl err, w') \<or>
           (\<exists>res. fetch P (request_url opts) (request_options P opts) (world s) = (Inr res, w')
                  \<and> ok res \<and> text_outcome P res s = Inl err)"
  shows "fst (assessRecaptchaToken P opts s) =
           Inr (error_shape 500
                  (case err of Error m \<Rightarrow> m
                             | NonError x \<Rightarrow> ''Failed to assess recaptcha token'')) \<and>
         ((case err of Error m \<Rightarrow> m
                     | NonError x \<Rightarrow> ''Failed to assess recaptcha token'') = []
            \<longleftrightarrow> err = Error [])"
proof -
  have "fst (assessRecaptchaToken P opts s) =
           Inr (error_shape 500
                  (case err of Error m \<Rightarrow> m
                             | NonError x \<Rightarrow> ''Failed to assess recaptcha token''))"
    using assms
  proof
    assume "fetch P (request_url opts) (request_options P opts) (world s) = (Inl err, w')"
    then show ?thesis by (rule assess_fetch_rejected)
  next
    assume "\<exists>res. fetch P (request_url opts) (request_options P opts) (world s) = (Inr res, w')
                  \<and> ok res \<and> text_outcome P res s = Inl err"
    then obtain res where
      "fetch P (request_url opts) (request_options P opts) (world s) = (Inr res, w')"
      and "ok res" and "text_outcome P res s = Inl err"
      by blast
    then show ?thesis by (rule assess_text_rejected)
  qed
  then show ?thesis by (simp split: thrown.splits)
qed

text \<open>
  Three transports: one whose \<open>fetch\<close> rejects with an \<open>Error\<close>, one whose \<open>fetch\<close>
  rejects with a string, and one that answers 200 and then fails while the body is
  read.
\<close>

theorem transport_exception_reported_witness:
  "fst (assessRecaptchaToken (mock_platform (Inl (Error ''getaddrinfo ENOTFOUND'')))
          scenario_options start) =
     Inr (error_shape 500 ''getaddrinfo ENOTFOUND'') \<and>
   fst (assessRecaptchaToken (mock_platform (Inl (NonError (JString ''timeout''))))
          scenario_options start) =
     Inr (error_shape 500 ''Failed to assess recaptcha token'') \<and>
   fst (assessRecaptchaToken
          (mock_platform (Inr (respond 200 ''OK'' (Inl (Error ''socket hang up'')))))
          scenario_options start) =
     Inr (error_shape 500 ''socket hang up'')"
proof -
  let ?M1 = "mock_platform (Inl (Error ''getaddrinfo ENOTFOUND''))"
  let ?M2 = "mock_platform (Inl (NonError (JString ''timeout'')))"
  let ?res = "respond 200 ''OK'' (Inl (Error ''socket hang up''))"
  let ?M3 = "mock_platform (Inr ?res)"
  have a: "fetch ?M1 (request_url scenario_options) (request_options ?M1 scenario_options)
             (world start) = (Inl (Error ''getaddrinfo ENOTFOUND''), Suc (world start))"
    by (rule mock_fetch)
  have b: "fetch ?M2 (request_url scenario_options) (request_options ?M2 scenario_options)
             (world start) = (Inl (NonError (JString ''timeout'')), Suc (world start))"
    by (rule mock_fetch)
  have c: "fetch ?M3 (request_url scenario_options) (request_options ?M3 scenario_options)
             (world start) = (Inr ?res, Suc (world start))"
    by (rule mock_fetch)
  have d: "ok ?res" by (simp add: respond_def)
  have e: "text_outcome ?M3 ?res start = Inl (Error ''socket hang up'')"
    by (rule respond_text_at_start)
  have c': "\<exists>res. fetch ?M3 (request_url scenario_options)
                (request_options ?M3 scenario_options) (world start)
              = (Inr res, Suc (world start)) \<and> ok res \<and>
              text_outcome ?M3 res start = Inl (Error ''socket hang up'')"
    using c d e by blast
  show ?thesis
    using transport_exception_reported [OF disjI1 [OF a]]
      transport_exception_reported [OF disjI1 [OF b]]
      transport_exception_reported [OF disjI2 [OF c']]
    by simp
qed

text \<open>
  The claim as first stated asks for a non-empty message whenever the transport
  throws. A transport that throws an \<open>Error\<close> constructed without a message gets the
  error shape with the empty string as its message.
\<close>

theorem transport_exception_empty_message:
  "fst (assessRecaptchaToken (mock_platform (Inl (Error ''''))) scenario_options start) =
     Inr (JObject [(''error'',
            JObject [(''code'', JNumber 500), (''message'', JString '''')])])"
  by (simp add: assess_fetch_rejected [OF mock_fetch] error_shape_def)

text \<open>
  Claim C5. When the transport answers with a success status and the body read from
  the response is the empty string, the result is the error shape with code 500 and
  the message \<open>Empty response from reCAPTCHA API\<close>.
\<close>

theorem empty_body_reported:
  assumes "fetch P (request_url opts) (request_options P opts) (world s) = (Inr res, w')"
    and "ok res"
    and "text_outcome P res s = Inr []"
  shows "fst (assessRecaptchaToken P opts s) =
           Inr (error_shape 500 ''Empty response from reCAPTCHA API'')"
  using assess_empty_body [OF assms] by simp

theorem empty_body_reported_witness:
  "ok (respond 200 ''OK'' (Inr '''')) \<and>
   fst (assessRecaptchaToken (mock_platform (Inr (respond 200 ''OK'' (Inr ''''))))
          scenario_options start) =
     Inr (JObject [(''error'',
            JObject [(''code'', JNumber 500),
                     (''message'', JString ''Empty response from reCAPTCHA API'')])])"
proof -
  let ?res = "respond 200 ''OK'' (Inr '''')"
  have a: "fetch (mock_platform (Inr ?res)) (request_url scenario_options)
             (request_options (mock_platform (Inr ?res)) scenario_options) (world start)
           = (Inr ?res, Suc (world start))"
    by (rule mock_fetch)
  have b: "ok ?res" by (simp add: respond_def)
  have c: "text_outcome (mock_platform (Inr ?res)) ?res start = Inr []"
    by (rule respond_text_at_start)
  show ?thesis
    using empty_body_reported [OF a b c] b by (simp add: error_shape_def)
qed

text \<open>
  Claim C6. When the transport answers with a success status and a non-empty body on
  which \<open>JSON.parse\<close> throws, the result is the error shape with code 500 and the
  message \<open>Invalid JSON response from reCAPTCHA API\<close>.
\<close>

theorem invalid_json_reported:
  assumes "fetch P (request_url opts) (request_options P opts) (world s) = (Inr res, w')"
    and "ok res"
    and "text_outcome P res s = Inr txt"
    and "txt \<noteq> []"
    and "JSON_parse P txt = Inl err"
  shows "fst (assessRecaptchaToken P opts s) =
           Inr (error_shape 500 ''Invalid JSON response from reCAPTCHA API'')"
  using assess_parse_throws [OF assms] by simp

theorem invalid_json_reported_witness:
  "ok (respond 200 ''OK'' (Inr ''not-json{'')) \<and>
   fst (assessRecaptchaToken (mock_platform (Inr (respond 200 ''OK'' (Inr ''not-json{''))))
          scenario_options start) =
     Inr (JObject [(''error'',
            JObject [(''code'', JNumber 500),
                     (''message'', JString ''Invalid JSON response from reCAPTCHA API'')])])"
proof -
  let ?res = "respond 200 ''OK'' (Inr ''not-json{'')"
  have a: "fetch (mock_platform (Inr ?res)) (request_url scenario_options)
             (request_options (mock_platform (Inr ?res)) scenario_options) (world start)
           = (Inr ?res, Suc (world start))"
    by (rule mock_fetch)
  have b: "ok ?res" by (simp add: respond_def)
  have c: "text_outcome (mock_platform (Inr ?res)) ?res start = Inr ''not-json{''"
    by (rule respond_text_at_start)
  have d: "''not-json{'' \<noteq> []" by simp
  have e: "JSON_parse (mock_platform (Inr ?res)) ''not-json{'' = Inl (Error ''Unexpected token'')"
    by (rule mock_parse_not_json)
  show ?thesis
    using invalid_json_reported [OF a b c d e] b by (simp add: error_shape_def)
qed

section \<open>The outbound request\<close>

text \<open>
  Claim C7. The outbound calls issued by an invocation are a single call to \<open>fetch\<close>.
  Its URL is the fixed template with \<open>projectId\<close> in the path and \<open>api_token\<close> as the
  value of the \<open>key\<close> query parameter, both interpolated as they are. Its method is
  POST, its headers are \<open>Content-Type: application/json\<close>, and its body is the JSON
  serialisation of an object with the single member \<open>event\<close>, itself an object with
  exactly the members \<open>token\<close>, \<open>siteKey\<close> and \<open>expectedAction\<close>.
\<close>

theorem outbound_request_shape:
  "issued s (snd (assessRecaptchaToken P opts s)) =
     [Fetch (''https://recaptchaenterprise.googleapis.com/v1/projects/'' @ projectId opts
               @ ''/assessments?key='' @ api_token opts)
        \<lparr>method = ''POST'',
         headers = [(''Content-Type'', ''application/json'')],
         body = JSON_stringify P
           (JObject [(''event'',
              JObject [(''token'', JString (token opts)),
                       (''siteKey'', JString (siteKey opts)),
                       (''expectedAction'', JString (expectedAction opts))])])\<rparr>]"
  by (simp add: assess_issued request_url_def request_options_def)

text \<open>The request of the specification's scenario, as it goes on the wire.\<close>

theorem outbound_request_shape_witness:
  \<open>issued start
     (snd (assessRecaptchaToken (mock_platform (Inr (respond 200 ''OK'' (Inr scenario_body))))
        scenario_options start)) =
     [Fetch ''https://recaptchaenterprise.googleapis.com/v1/projects/proj1/assessments?key=key1''
        \<lparr>method = ''POST'',
         headers = [(''Content-Type'', ''application/json'')],
         body = ''{"event":{"token":"tok1","siteKey":"site1","expectedAction":"login"}}''\<rparr>]\<close>
  using outbound_request_shape
    [of start "mock_platform (Inr (respond 200 ''OK'' (Inr scenario_body)))" scenario_options]
  by (simp add: mock_platform_def scenario_options_def quote_def)

text \<open>
  Claim C8. Every invocation, whatever the transport does, issues exactly one outbound
  call: among the calls it adds to the trace one is a call to \<open>fetch\<close>, and the world
  it leaves is the world after that single call. No path makes a second call.
\<close>

theorem exactly_one_outbound_call:
  "length (issued s (snd (assessRecaptchaToken P opts s))) = 1 \<and>
   world (snd (assessRecaptchaToken P opts s)) =
     snd (fetch P (request_url opts) (request_options P opts) (world s))"
  by (simp add: assess_issued assess_world)

text \<open>On the failure path of a transport that throws, the counter of the test transport
  goes from 0 to 1.\<close>

theorem exactly_one_outbound_call_witness:
  "length (issued start
     (snd (assessRecaptchaToken (mock_platform (Inl (Error ''socket hang up'')))
        scenario_options start))) = 1 \<and>
   world (snd (assessRecaptchaToken (mock_platform (Inl (Error ''socket hang up'')))
        scenario_options start)) = 1"
  using exactly_one_outbound_call
    [of start "mock_platform (Inl (Error ''socket hang up''))" scenario_options]
  by (simp add: mock_fetch start_def)

section \<open>Determinism and information flow\<close>

text \<open>
  Claim C9, as amended. Against a deterministic transport, two invocations with the
  same input fields return the same result, from whatever states they start, provided
  each of them is handed a response whose body has not been read before, as it is by a
  transport that builds a new \<open>Response\<close> for every call. What an invocation leaves
  behind for a later one to meet is the body it has read.
\<close>

theorem deterministic_results:
  assumes "deterministic_transport P"
    and "receives_usable_body P opts s"
    and "receives_usable_body P opts s'"
  shows "fst (assessRecaptchaToken P opts s) = fst (assessRecaptchaToken P opts s')"
proof -
  from assms(1) have
    "same_outcome
       (fst (fetch P (request_url opts) (request_options P opts) (world s)))
       (fst (fetch P (request_url opts) (request_options P opts) (world s')))"
    by (simp add: deterministic_transport_def)
  then show ?thesis using assms(2,3) by (rule assess_result_of_outcome)
qed

text \<open>
  Two invocations in a row against a transport that answers every call with a new
  response of status 200 and the scenario's body: the second starts in the state the
  first has left, and both return the parsed body.
\<close>

theorem deterministic_results_witness:
  "deterministic_transport (fresh_platform (respond 200 ''OK'' (Inr scenario_body))) \<and>
   fst (assessRecaptchaToken (fresh_platform (respond 200 ''OK'' (Inr scenario_body)))
          scenario_options start) = Inr scenario_json \<and>
   fst (assessRecaptchaToken (fresh_platform (respond 200 ''OK'' (Inr scenario_body)))
          scenario_options
          (snd (assessRecaptchaToken
             (fresh_platform (respond 200 ''OK'' (Inr scenario_body)))
             scenario_options start))) = Inr scenario_json"
proof -
  let ?r = "respond 200 ''OK'' (Inr scenario_body)"
  let ?F = "fresh_platform ?r"
  let ?s1 = "snd (assessRecaptchaToken ?F scenario_options start)"
  have f: "fetch ?F u i w = (Inr (?r\<lparr>stream := Some w\<rparr>), Suc w)" for u i w
    by (simp add: fresh_platform_def)
  have d: "deterministic_transport ?F"
    by (simp add: deterministic_transport_def f body_content_def)
  have u0: "receives_usable_body ?F scenario_options start"
    by (simp add: receives_usable_body_def f unusable_def start_def)
  have f0: "fetch ?F (request_url scenario_options) (request_options ?F scenario_options)
              (world start) = (Inr (?r\<lparr>stream := Some 0\<rparr>), 1)"
    by (simp add: f start_def)
  have ok0: "ok (?r\<lparr>stream := Some 0\<rparr>)" by (simp add: respond_def)
  have s1: "world ?s1 = 1" "bodyUsed ?s1 = {0}"
    using assess_read_state [OF f0 ok0] by (simp_all add: start_def)
  have u1: "receives_usable_body ?F scenario_options ?s1"
    by (simp add: receives_usable_body_def f unusable_def s1)
  have first: "fst (assessRecaptchaToken ?F scenario_options start) = Inr scenario_json"
  proof (rule assess_parsed)
    show "fetch ?F (request_url scenario_options) (request_options ?F scenario_options)
            (world start) = (Inr (?r\<lparr>stream := Some (world start)\<rparr>), Suc (world start))"
      by (rule f)
    show "ok (?r\<lparr>stream := Some (world start)\<rparr>)" by (simp add: respond_def)
    show "text_outcome ?F (?r\<lparr>stream := Some (world start)\<rparr>) start = Inr scenario_body"
      by (simp add: text_outcome_def start_def respond_def)
    show "scenario_body \<noteq> []" by (simp add: scenario_body_def)
    show "JSON_parse ?F scenario_body = Inr scenario_json"
      by (simp add: fresh_platform_def table_parse_def)
  qed
  show ?thesis
    using deterministic_results [OF d u1 u0] d first by simp
qed

text \<open>
  The claim as first stated asks for identical results against every transport that
  gives the same outcome for the same request. A transport that hands the same
  \<open>Response\<close> object to every call is such a transport. The first invocation reads the
  body of that response and returns the parsed body; the second finds the body already
  read, and returns the error shape with code 500 and the runtime's message.
\<close>

theorem shared_response_results_differ:
  "deterministic_transport (mock_platform (Inr (respond 200 ''OK'' (Inr scenario_body)))) \<and>
   fst (assessRecaptchaToken (mock_platform (Inr (respond 200 ''OK'' (Inr scenario_body))))
          scenario_options start) =
     Inr (JObject [(''tokenProperties'',
                     JObject [(''valid'', JBool True), (''action'', JString ''login'')]),
                   (''riskAnalysis'', JObject [(''score'', JNumber 0.9)])]) \<and>
   fst (assessRecaptchaToken (mock_platform (Inr (respond 200 ''OK'' (Inr scenario_body))))
          scenario_options
          (snd (assessRecaptchaToken
             (mock_platform (Inr (respond 200 ''OK'' (Inr scenario_body))))
             scenario_options start))) =
     Inr (JObject [(''error'',
            JObject [(''code'', JNumber 500),
                     (''message'', JString ''Body is unusable: Body has already been read'')])]) \<and>
   fst (assessRecaptchaToken (mock_platform (Inr (respond 200 ''OK'' (Inr scenario_body))))
          scenario_options
          (snd (assessRecaptchaToken
             (mock_platform (Inr (respond 200 ''OK'' (Inr scenario_body))))
             scenario_options start))) \<noteq>
   fst (assessRecaptchaToken (mock_platform (Inr (respond 200 ''OK'' (Inr scenario_body))))
          scenario_options start)"
proof -
  let ?r = "respond 200 ''OK'' (Inr scenario_body)"
  let ?M = "mock_platform (Inr ?r)"
  let ?s1 = "snd (assessRecaptchaToken ?M scenario_options start)"
  have f: "fetch ?M (request_url scenario_options) (request_options ?M scenario_options) w
             = (Inr ?r, Suc w)" for w
    by (rule mock_fetch)
  have okr: "ok ?r" by (simp add: respond_def)
  have d: "deterministic_transport ?M"
    by (simp add: deterministic_transport_def mock_fetch)
  have "text_outcome ?M ?r start = Inr scenario_body"
    by (rule respond_text_at_start)
  moreover have "scenario_body \<noteq> []" by (simp add: scenario_body_def)
  ultimately have first:
    "fst (assessRecaptchaToken ?M scenario_options start) = Inr scenario_json"
    using assess_parsed [OF f okr _ _ mock_parse_scenario] by simp
  have "bodyUsed ?s1 = {0}"
    using assess_read_state [OF f okr] by (simp add: respond_def start_def)
  then have "text_outcome ?M ?r ?s1 =
      Inl (Error ''Body is unusable: Body has already been read'')"
    by (simp add: text_outcome_def respond_def mock_platform_def)
  then have second: "fst (assessRecaptchaToken ?M scenario_options ?s1) =
      Inr (error_shape 500 ''Body is unusable: Body has already been read'')"
    using assess_text_rejected [OF f okr] by simp
  show ?thesis
    using d first second by (simp add: scenario_json_def error_shape_def)
qed

text \<open>
  Claim C10. The bodies put on the wire depend on \<open>token\<close>, \<open>siteKey\<close> and
  \<open>expectedAction\<close> alone: two requests that agree on these three fields send the same
  body, however they differ in \<open>api_token\<close> and \<open>projectId\<close> and whatever the state of
  the world. The credential and the project identifier reach the request through the
  URL only.
\<close>

theorem body_independent_of_credential:
  assumes "token o1 = token o2"
    and "siteKey o1 = siteKey o2"
    and "expectedAction o1 = expectedAction o2"
  shows "bodies (issued s1 (snd (assessRecaptchaToken P o1 s1))) =
         bodies (issued s2 (snd (assessRecaptchaToken P o2 s2)))"
  using assms by (simp add: assess_issued request_options_def)

theorem body_independent_of_credential_witness:
  \<open>bodies (issued start
      (snd (assessRecaptchaToken (mock_platform (Inl (Error ''offline'')))
         scenario_options start))) =
   bodies (issued start
      (snd (assessRecaptchaToken (mock_platform (Inl (Error ''offline'')))
         (scenario_options\<lparr>api_token := ''key2'', projectId := ''proj2''\<rparr>) start)))\<close>
  using body_independent_of_credential
    [of scenario_options "scenario_options\<lparr>api_token := ''key2'', projectId := ''proj2''\<rparr>"
        start "mock_platform (Inl (Error ''offline''))" start]
  by simp

end
